theory Spec2Isabelle
  imports Main "HOL-Library.AList"
begin

section \<open>Go values used by the program\<close>

text \<open>
  The program of \<^verbatim>\<open>main.go\<close> handles dynamically typed values (\<^verbatim>\<open>any\<close>) in two
  places: the decoded arguments of a tool call (\<^verbatim>\<open>map[string]any\<close> filled by
  \<^verbatim>\<open>json.Unmarshal\<close>) and the parameter schema it builds for every tool.  The datatype
  below has one constructor per dynamic type that can occur there.  A JSON number is
  kept as its literal text, so that no floating point arithmetic is involved.

  A Go map \<^verbatim>\<open>map[string]any\<close> is \<open>None\<close> when it is the nil map and \<open>Some kvs\<close>
  when it is allocated, \<open>kvs\<close> listing its entries.
\<close>

datatype any =
    ANil
  | ABool bool
  | ANumber string
  | AString string
  | ASlice "any list"
  | AMap "(string \<times> any) list option"
  | AStrings "string list"

type_synonym gomap = "(string \<times> any) list option"

text \<open>\<^verbatim>\<open>len(m)\<close>: the number of keys; the nil map has length 0.\<close>

definition len_map :: "gomap \<Rightarrow> nat" where
  "len_map m = (case m of None \<Rightarrow> 0 | Some kvs \<Rightarrow> length (remdups (map fst kvs)))"

text \<open>\<^verbatim>\<open>m[k]\<close>: the value stored under \<open>k\<close>, and the zero value (the nil interface)
  when the key is missing or the map is nil.\<close>

definition index_map :: "gomap \<Rightarrow> string \<Rightarrow> any" where
  "index_map m k =
     (case m of
        None \<Rightarrow> ANil
      | Some kvs \<Rightarrow> (case map_of kvs k of None \<Rightarrow> ANil | Some v \<Rightarrow> v))"

text \<open>\<^verbatim>\<open>m[k] = v\<close> on an allocated map.\<close>

definition assign :: "string \<Rightarrow> any \<Rightarrow> (string \<times> any) list \<Rightarrow> (string \<times> any) list" where
  "assign k v m = AList.update k v m"

section \<open>Tool descriptors and tool schemas\<close>

text \<open>The fields of \<^verbatim>\<open>mcp.Tool\<close> and \<^verbatim>\<open>mcp.ToolInputSchema\<close> that the program reads, and
  of \<^verbatim>\<open>openai.ChatCompletionToolParam\<close> that it writes.\<close>

record ToolInputSchema =
  schema_Type :: string
  Properties :: gomap
  Required :: "string list"

record Tool =
  tool_Name :: string
  tool_Description :: string
  InputSchema :: ToolInputSchema

record ListToolsResult =
  Tools :: "Tool list"

record FunctionDefinitionParam =
  fn_Name :: string
  fn_Description :: string
  Parameters :: "(string \<times> any) list"

record ChatCompletionToolParam =
  Function :: FunctionDefinitionParam

text \<open>The body of the loop of \<^verbatim>\<open>convertToolsSchema\<close> (lines 191 to 211): the schema map
  of one tool, and the tool parameter built around it.\<close>

definition convertToolsSchema_schema :: "Tool \<Rightarrow> (string \<times> any) list" where
  "convertToolsSchema_schema tool =
     (let schema = [(''type'', AString ''object'')];
          schema = (if len_map (Properties (InputSchema tool)) > 0
                    then assign ''properties'' (AMap (Properties (InputSchema tool))) schema
                    else assign ''properties'' (AMap (Some [])) schema);
          schema = (if length (Required (InputSchema tool)) > 0
                    then assign ''required'' (AStrings (Required (InputSchema tool))) schema
                    else schema)
      in schema)"

definition convertToolsSchema_tool :: "Tool \<Rightarrow> ChatCompletionToolParam" where
  "convertToolsSchema_tool tool =
     \<lparr>Function = \<lparr>fn_Name = tool_Name tool,
                   fn_Description = tool_Description tool,
                   Parameters = convertToolsSchema_schema tool\<rparr>\<rparr>"

text \<open>The loop itself: every tool appends one element to \<^verbatim>\<open>openaiTools\<close>.\<close>

fun convertToolsSchema_loop ::
  "Tool list \<Rightarrow> ChatCompletionToolParam list \<Rightarrow> ChatCompletionToolParam list" where
  "convertToolsSchema_loop [] openaiTools = openaiTools"
| "convertToolsSchema_loop (tool # tools) openaiTools =
     convertToolsSchema_loop tools (openaiTools @ [convertToolsSchema_tool tool])"

definition convertToolsSchema :: "ListToolsResult \<Rightarrow> ChatCompletionToolParam list" where
  "convertToolsSchema tools = convertToolsSchema_loop (Tools tools) []"

text \<open>
  A produced tool parameter read as a tool descriptor again.  The parameter schema is a
  JSON schema object with the keys \<^verbatim>\<open>type\<close>, \<^verbatim>\<open>properties\<close> and \<^verbatim>\<open>required\<close>, which are
  the JSON fields of \<^verbatim>\<open>mcp.ToolInputSchema\<close>; a missing key leaves the field at its zero
  value.  The program itself never does this; the function is only there to state what
  translating a translated result means.
\<close>

definition asToolInputSchema :: "(string \<times> any) list \<Rightarrow> ToolInputSchema" where
  "asToolInputSchema schema =
     \<lparr>schema_Type = (case map_of schema ''type'' of Some (AString s) \<Rightarrow> s | _ \<Rightarrow> ''''),
      Properties = (case map_of schema ''properties'' of Some (AMap m) \<Rightarrow> m | _ \<Rightarrow> None),
      Required = (case map_of schema ''required'' of Some (AStrings r) \<Rightarrow> r | _ \<Rightarrow> [])\<rparr>"

definition asTool :: "ChatCompletionToolParam \<Rightarrow> Tool" where
  "asTool p =
     \<lparr>tool_Name = fn_Name (Function p),
      tool_Description = fn_Description (Function p),
      InputSchema = asToolInputSchema (Parameters (Function p))\<rparr>"

definition asListToolsResult :: "ChatCompletionToolParam list \<Rightarrow> ListToolsResult" where
  "asListToolsResult ps = \<lparr>Tools = map asTool ps\<rparr>"

section \<open>Conversation, completions and tool calls\<close>

text \<open>A requested tool call (\<^verbatim>\<open>openai.ChatCompletionMessageToolCall\<close>): its identifier, and
  the function name with the arguments as the model wrote them, an encoded string.\<close>

record FunctionCall =
  call_Name :: string
  Arguments :: string

record ToolCall =
  ID :: string
  call_Function :: FunctionCall

text \<open>The messages of the conversation (\<^verbatim>\<open>openai.ChatCompletionMessageParamUnion\<close>), by
  the constructor function of the library that makes them.  \<open>ToolMessage\<close> takes the result
  text first and the call identifier second, as \<^verbatim>\<open>openai.ToolMessage\<close> does.\<close>

datatype MessageParam =
    SystemMessage string
  | UserMessage string
  | AssistantMessage string "ToolCall list"
  | ToolMessage string string

record ChatCompletionMessage =
  msg_Content :: string
  ToolCalls :: "ToolCall list"

record Choice =
  Message :: ChatCompletionMessage

record ChatCompletion =
  Choices :: "Choice list"

text \<open>\<^verbatim>\<open>Message.ToParam()\<close>: the returned message as an assistant message of the
  conversation, with its text and its tool call requests.\<close>

definition ToParam :: "ChatCompletionMessage \<Rightarrow> MessageParam" where
  "ToParam m = AssistantMessage (msg_Content m) (ToolCalls m)"

record ChatCompletionNewParams =
  params_Tools :: "ChatCompletionToolParam list"
  Model :: string
  Messages :: "MessageParam list"

definition systemMessages :: "MessageParam list" where
  "systemMessages =
     [SystemMessage ''To be a fast and efficient agent, batch tool calls together.'',
      SystemMessage ''Do everything using a Python sandbox. Don't use built-in tool calling, use the Python sandbox.'',
      SystemMessage ''Don't try to calculate yourself or retrieve results from memory. You compute everything.'',
      SystemMessage ''Output the result and ONLY the result.'']"

text \<open>The request parameters \<^verbatim>\<open>main\<close> starts the loop with (lines 104 to 108).\<close>

definition main_params ::
  "ChatCompletionToolParam list \<Rightarrow> string \<Rightarrow> string \<Rightarrow> ChatCompletionNewParams" where
  "main_params toolsSchema model question =
     \<lparr>params_Tools = toolsSchema, Model = model,
      Messages = systemMessages @ [UserMessage question]\<rparr>"

section \<open>Tool results and their rendering\<close>

text \<open>
  The items of a tool result (\<^verbatim>\<open>mcp.Content\<close>).  \<open>TextContent t\<close> is a \<^verbatim>\<open>mcp.TextContent\<close>
  whose \<^verbatim>\<open>Text\<close> is \<open>t\<close>.  \<open>OtherContent fs\<close> is an item of any other type of the library
  (image, audio, embedded resource): a struct, given by the texts that \<^verbatim>\<open>%v\<close> prints for
  its fields, in their order.
\<close>

datatype Content =
    TextContent string
  | OtherContent "string list"

record CallToolResult =
  result_Content :: "Content list"
  IsError :: bool

text \<open>\<^verbatim>\<open>mcp.AsTextContent\<close>: the type assertion to \<^verbatim>\<open>TextContent\<close>; the program reads
  \<^verbatim>\<open>Text\<close> of the result, which is what is returned here.\<close>

definition AsTextContent :: "Content \<Rightarrow> string option" where
  "AsTextContent c = (case c of TextContent t \<Rightarrow> Some t | OtherContent fs \<Rightarrow> None)"

text \<open>\<^verbatim>\<open>fmt.Sprintf("%v", c)\<close> for a struct: the fields, separated by one space, in
  braces.  A text item is printed with its field \<^verbatim>\<open>Type\<close> and without annotations.\<close>

fun join_fields :: "string list \<Rightarrow> string" where
  "join_fields [] = []"
| "join_fields [f] = f"
| "join_fields (f # g # fs) = f @ '' '' @ join_fields (g # fs)"

definition Sprintf_v :: "Content \<Rightarrow> string" where
  "Sprintf_v c =
     (case c of
        TextContent t \<Rightarrow> ''{'' @ join_fields [''{<nil>}'', ''text'', t] @ ''}''
      | OtherContent fs \<Rightarrow> ''{'' @ join_fields fs @ ''}'')"

section \<open>The outside world\<close>

text \<open>
  What the program does to the outside is recorded as a trace of events, in the order of
  the calls: the requests to the tool server, the calls of the completion API (with the
  request parameters sent) and the two kinds of output on the display.
\<close>

record CallToolRequest =
  Method :: string
  req_Name :: string
  req_Arguments :: gomap

datatype event =
    McpInitialize
  | McpListTools
  | McpCallTool CallToolRequest
  | CompletionsNew ChatCompletionNewParams
  | PrintResultBox string
  | PrintCodeBox string string

record 'srv world =
  trace :: "event list"
  server :: 'srv

text \<open>
  The libraries and the tool server the program calls.  \<^verbatim>\<open>json.Unmarshal\<close> into a nil
  \<^verbatim>\<open>map[string]any\<close> returns an error text or the decoded map.  The tool server has a
  state of its own, of type \<open>'srv\<close>, which every request may change; a request returns an
  error text (\<open>Inl\<close>) or its result.
\<close>

record 'srv env =
  json_Unmarshal :: "string \<Rightarrow> string + gomap"
  mcp_Initialize :: "'srv \<Rightarrow> (string + unit) \<times> 'srv"
  mcp_ListTools :: "'srv \<Rightarrow> (string + ListToolsResult) \<times> 'srv"
  mcp_CallTool :: "'srv \<Rightarrow> CallToolRequest \<Rightarrow> (string + CallToolResult) \<times> 'srv"

text \<open>
  The errors \<^verbatim>\<open>callTool\<close> returns, by the place that makes them:
  \<open>FailedToUnmarshal\<close> is \<^verbatim>\<open>"failed to unmarshal tool arguments: %v"\<close> (the specification's
  ArgumentDecodeError) and \<open>FailedToCall\<close> is \<^verbatim>\<open>"failed to call tool: %v"\<close> (its
  InvocationError).  The run-time panics: an index out of range and a failed type
  assertion.  The calls of \<^verbatim>\<open>log.Fatal\<close>, which end the process: \<open>FatalInitialize\<close>,
  \<open>FatalListTools\<close> and \<open>FatalNoTools\<close> in \<^verbatim>\<open>toolList\<close> (the specification's
  DiscoveryError), \<open>FatalCompletion\<close> (its CompletionError) and \<open>FatalCallTool\<close> in the loop.
\<close>

datatype error = FailedToUnmarshal string | FailedToCall string

datatype panic = IndexOutOfRange | InterfaceConversion

datatype fatal =
    FatalInitialize string
  | FatalListTools string
  | FatalNoTools
  | FatalCompletion string
  | FatalCallTool error

datatype 'a returned = Ok 'a | Err error | Panic panic

definition printCodeBox :: "string \<Rightarrow> string \<Rightarrow> 'srv world \<Rightarrow> 'srv world" where
  "printCodeBox content language w = w\<lparr>trace := trace w @ [PrintCodeBox content language]\<rparr>"

definition printResultBox :: "string \<Rightarrow> 'srv world \<Rightarrow> 'srv world" where
  "printResultBox content w = w\<lparr>trace := trace w @ [PrintResultBox content]\<rparr>"

section \<open>Discovery\<close>

text \<open>\<^verbatim>\<open>toolList\<close>: the handshake, the list of tools, and the check that there is one.
  \<open>Inl\<close> is the call of \<^verbatim>\<open>log.Fatal\<close> that ends the process.\<close>

definition toolList :: "'srv env \<Rightarrow> 'srv world \<Rightarrow> (fatal + ListToolsResult) \<times> 'srv world" where
  "toolList env w =
     (let (initResult, srv1) = mcp_Initialize env (server w);
          w1 = w\<lparr>trace := trace w @ [McpInitialize], server := srv1\<rparr>
      in case initResult of
           Inl err \<Rightarrow> (Inl (FatalInitialize err), w1)
         | Inr _ \<Rightarrow>
             (let (listResult, srv2) = mcp_ListTools env (server w1);
                  w2 = w1\<lparr>trace := trace w1 @ [McpListTools], server := srv2\<rparr>
              in case listResult of
                   Inl err \<Rightarrow> (Inl (FatalListTools err), w2)
                 | Inr toolsResult \<Rightarrow>
                     if length (Tools toolsResult) = 0 then (Inl FatalNoTools, w2)
                     else (Inr toolsResult, w2)))"

section \<open>Tool dispatch\<close>

text \<open>\<^verbatim>\<open>callTool\<close>: what it returns (a text, an error, or a panic) and the world after it.\<close>

definition callTool :: "'srv env \<Rightarrow> ToolCall \<Rightarrow> 'srv world \<Rightarrow> string returned \<times> 'srv world" where
  "callTool env toolCall w =
     (case json_Unmarshal env (Arguments (call_Function toolCall)) of
        Inl err \<Rightarrow> (Err (FailedToUnmarshal err), w)
      | Inr args \<Rightarrow>
          (case (if call_Name (call_Function toolCall) = ''sandbox_run_code''
                 then (case index_map args ''code'' of
                         AString code \<Rightarrow> Inr (printCodeBox code ''python'' w)
                       | _ \<Rightarrow> Inl InterfaceConversion)
                 else Inr w) of
             Inl p \<Rightarrow> (Panic p, w)
           | Inr w1 \<Rightarrow>
               (let mcpToolRequest =
                      \<lparr>Method = ''tools/call'',
                       req_Name = call_Name (call_Function toolCall),
                       req_Arguments = args\<rparr>;
                    (callResult, srv') = mcp_CallTool env (server w1) mcpToolRequest;
                    w2 = w1\<lparr>trace := trace w1 @ [McpCallTool mcpToolRequest], server := srv'\<rparr>
                in case callResult of
                     Inl err \<Rightarrow> (Err (FailedToCall err), w2)
                   | Inr toolResult \<Rightarrow>
                       (Ok (case result_Content toolResult of
                              [] \<Rightarrow> ''''
                            | c # cs \<Rightarrow>
                                (case AsTextContent c of
                                   Some text \<Rightarrow> text
                                 | None \<Rightarrow> Sprintf_v c)), w2))))"

section \<open>The agent loop\<close>

text \<open>
  How one iteration of the loop of \<^verbatim>\<open>main\<close> ends: it goes on to the next iteration, or
  the loop is left by \<^verbatim>\<open>break\<close>, by \<^verbatim>\<open>log.Fatalf\<close> or by a panic.  Both carry the request
  parameters (the conversation is \<^verbatim>\<open>params.Messages\<close>) and the world.
\<close>

datatype exit = Break | Fatal fatal | Panicked panic

datatype 'srv step =
    Continue ChatCompletionNewParams "'srv world"
  | Stop exit ChatCompletionNewParams "'srv world"

text \<open>The inner loop over the requested calls (lines 130 to 140).\<close>

fun main_toolCalls ::
  "'srv env \<Rightarrow> ToolCall list \<Rightarrow> ChatCompletionNewParams \<Rightarrow> 'srv world \<Rightarrow> 'srv step" where
  "main_toolCalls env [] params w = Continue params w"
| "main_toolCalls env (toolCall # toolCalls) params w =
     (case callTool env toolCall w of
        (Ok result, w') \<Rightarrow>
          main_toolCalls env toolCalls
            (params\<lparr>Messages := Messages params @ [ToolMessage result (ID toolCall)]\<rparr>) w'
      | (Err err, w') \<Rightarrow> Stop (Fatal (FatalCallTool err)) params w'
      | (Panic p, w') \<Rightarrow> Stop (Panicked p) params w')"

text \<open>One iteration (lines 111 to 140), from the response of the completion API on:
  \<open>Inl\<close> is an error of the call, \<open>Inr\<close> the completion.\<close>

definition main_iteration ::
  "'srv env \<Rightarrow> string + ChatCompletion \<Rightarrow> ChatCompletionNewParams \<Rightarrow> 'srv world \<Rightarrow> 'srv step" where
  "main_iteration env response params w =
     (case response of
        Inl err \<Rightarrow> Stop (Fatal (FatalCompletion err)) params w
      | Inr completion \<Rightarrow>
          (case Choices completion of
             [] \<Rightarrow> Stop (Panicked IndexOutOfRange) params w
           | choice # choices \<Rightarrow>
               (let w1 = (if msg_Content (Message choice) \<noteq> ''''
                          then printResultBox (msg_Content (Message choice)) w else w);
                    toolCalls = ToolCalls (Message choice)
                in if length toolCalls = 0 then Stop Break params w1
                   else main_toolCalls env toolCalls
                          (params\<lparr>Messages := Messages params @ [ToParam (Message choice)]\<rparr>)
                          w1)))"

text \<open>
  The loop, run against the responses the completion API gives, one per call.  Every
  iteration calls the API with the current parameters (an event of the trace) and takes
  the next response.  The loop has no bound of its own: when it calls the API once more
  than there are responses, it is still waiting for a completion, which is the result
  \<open>AwaitingCompletion\<close>.  The number counts the iterations that got their response.
\<close>

datatype 'srv run =
    Finished exit nat ChatCompletionNewParams "'srv world"
  | AwaitingCompletion nat ChatCompletionNewParams "'srv world"

definition callCompletionsNew :: "ChatCompletionNewParams \<Rightarrow> 'srv world \<Rightarrow> 'srv world" where
  "callCompletionsNew params w = w\<lparr>trace := trace w @ [CompletionsNew params]\<rparr>"

fun main_loop ::
  "'srv env \<Rightarrow> (string + ChatCompletion) list \<Rightarrow> nat \<Rightarrow> ChatCompletionNewParams \<Rightarrow>
   'srv world \<Rightarrow> 'srv run" where
  "main_loop env [] n params w = AwaitingCompletion n params (callCompletionsNew params w)"
| "main_loop env (response # responses) n params w =
     (case main_iteration env response params (callCompletionsNew params w) of
        Continue params' w' \<Rightarrow> main_loop env responses (Suc n) params' w'
      | Stop e params' w' \<Rightarrow> Finished e (Suc n) params' w')"

text \<open>What the claims speak of.  The world an iteration and a run end with, and the
  calls of the completion API in a trace.\<close>

definition step_world :: "'srv step \<Rightarrow> 'srv world" where
  "step_world st = (case st of Continue params w \<Rightarrow> w | Stop e params w \<Rightarrow> w)"

definition run_world :: "'srv run \<Rightarrow> 'srv world" where
  "run_world r = (case r of Finished e n params w \<Rightarrow> w | AwaitingCompletion n params w \<Rightarrow> w)"

definition completionCalls :: "event list \<Rightarrow> ChatCompletionNewParams list" where
  "completionCalls evs = concat (map (\<lambda>e. case e of CompletionsNew p \<Rightarrow> [p] | _ \<Rightarrow> []) evs)"

text \<open>The tool call requests a response carries: those of the message of its first
  choice, which is the one the loop reads.  An error and a completion without a choice
  carry none to speak of.\<close>

definition requestedCalls :: "string + ChatCompletion \<Rightarrow> ToolCall list option" where
  "requestedCalls response =
     (case response of
        Inl err \<Rightarrow> None
      | Inr completion \<Rightarrow>
          (case Choices completion of
             [] \<Rightarrow> None
           | choice # choices \<Rightarrow> Some (ToolCalls (Message choice))))"

definition noToolCalls :: "string + ChatCompletion \<Rightarrow> bool" where
  "noToolCalls response = (requestedCalls response = Some [])"

definition someToolCalls :: "string + ChatCompletion \<Rightarrow> bool" where
  "someToolCalls response =
     (case requestedCalls response of None \<Rightarrow> False | Some toolCalls \<Rightarrow> toolCalls \<noteq> [])"

text \<open>The tool-result messages for a list of results and the calls they answer, pairwise.\<close>

definition toolMessages :: "string list \<Rightarrow> ToolCall list \<Rightarrow> MessageParam list" where
  "toolMessages results toolCalls =
     map (\<lambda>(result, toolCall). ToolMessage result (ID toolCall)) (zip results toolCalls)"

text \<open>The decoded arguments have no key \<^verbatim>\<open>code\<close>, or its value is not a string: the cases
  in which the type assertion \<^verbatim>\<open>args["code"].(string)\<close> fails.\<close>

definition noStringCode :: "gomap \<Rightarrow> bool" where
  "noStringCode args =
     (case args of
        None \<Rightarrow> True
      | Some kvs \<Rightarrow>
          (case map_of kvs ''code'' of
             None \<Rightarrow> True
           | Some v \<Rightarrow> (case v of AString code \<Rightarrow> False | _ \<Rightarrow> True)))"

text \<open>The call identifier of a tool-result message.\<close>

fun toolResultID :: "MessageParam \<Rightarrow> string option" where
  "toolResultID (ToolMessage result toolCallID) = Some toolCallID"
| "toolResultID (SystemMessage content) = None"
| "toolResultID (UserMessage content) = None"
| "toolResultID (AssistantMessage content toolCalls) = None"

text \<open>The output of the returned text, when there is one (lines 116 to 118).\<close>

definition displayed :: "ChatCompletionMessage \<Rightarrow> 'srv world \<Rightarrow> 'srv world" where
  "displayed m w = (if msg_Content m \<noteq> '''' then printResultBox (msg_Content m) w else w)"

text \<open>\<open>dispatched env w toolCalls results w'\<close>: from the world \<open>w\<close>, \<^verbatim>\<open>callTool\<close> was run
  on every call of the list in turn, each run starting in the world the one before left,
  every run returned a text, \<open>results\<close> are these texts in the order of the calls, and
  \<open>w'\<close> is the world after the last.\<close>

inductive dispatched ::
  "'srv env \<Rightarrow> 'srv world \<Rightarrow> ToolCall list \<Rightarrow> string list \<Rightarrow> 'srv world \<Rightarrow> bool"
  for env :: "'srv env" where
  dispatched_Nil: "dispatched env w [] [] w"
| dispatched_Cons:
    "callTool env toolCall w = (Ok result, w1) \<Longrightarrow> dispatched env w1 toolCalls results w2 \<Longrightarrow>
     dispatched env w (toolCall # toolCalls) (result # results) w2"

code_pred dispatched .

section \<open>Example data\<close>

text \<open>Two tool descriptors: the code execution tool with one required property, and a
  tool whose schema declares nothing (a nil property map, no required names).\<close>

definition example_tools :: ListToolsResult where
  "example_tools =
     \<lparr>Tools =
        [\<lparr>tool_Name = ''sandbox_run_code'', tool_Description = ''Run code in a sandbox'',
          InputSchema =
            \<lparr>schema_Type = ''object'',
             Properties = Some [(''code'', AMap (Some [(''type'', AString ''string'')]))],
             Required = [''code'']\<rparr>\<rparr>,
         \<lparr>tool_Name = ''sandbox_stop'', tool_Description = ''Stop the sandbox'',
          InputSchema = \<lparr>schema_Type = [], Properties = None, Required = []\<rparr>\<rparr>]\<rparr>"

text \<open>
  An environment for the examples.  Its decoder stands in for \<^verbatim>\<open>json.Unmarshal\<close> on the
  payloads the examples use, and is not a model of the library on any other payload.  On
  each of them it returns what the library returns: the map of a JSON object, the nil map
  for \<^verbatim>\<open>null\<close> (which the library accepts without an error), and for the payload that
  breaks off after \<^verbatim>\<open>7*\<close> the syntax error of the library, with its text.  The tool server
  counts the requests it has answered.  Its tool \<^verbatim>\<open>sandbox_run_code\<close> answers the code
  \<^verbatim>\<open>7*6\<close> and \<^verbatim>\<open>1+1\<close> with a text, \<^verbatim>\<open>plot()\<close> with an image, \<^verbatim>\<open>pass\<close> with no content,
  and fails on anything else; its tool \<^verbatim>\<open>sandbox_stop\<close> reads no argument and answers with
  a text.
\<close>

definition example_Unmarshal :: "string \<Rightarrow> string + gomap" where
  \<open>example_Unmarshal s =
     (if s = ''{"code":"7*6"}'' then Inr (Some [(''code'', AString ''7*6'')])
      else if s = ''{"code": "1+1"}'' then Inr (Some [(''code'', AString ''1+1'')])
      else if s = ''{"code": "plot()"}'' then Inr (Some [(''code'', AString ''plot()'')])
      else if s = ''{"code": "pass"}'' then Inr (Some [(''code'', AString ''pass'')])
      else if s = ''{"code": "boom"}'' then Inr (Some [(''code'', AString ''boom'')])
      else if s = ''{"code": 1}'' then Inr (Some [(''code'', ANumber ''1'')])
      else if s = ''{}'' then Inr (Some [])
      else if s = ''null'' then Inr None
      else if s = ''{"code": 7*''
        then Inl ''invalid character '*' after object key:value pair''
      else Inl ''unexpected end of JSON input'')\<close>

definition example_CallTool :: "nat \<Rightarrow> CallToolRequest \<Rightarrow> (string + CallToolResult) \<times> nat" where
  "example_CallTool served req =
     (if req_Name req = ''sandbox_run_code'' then
        (case index_map (req_Arguments req) ''code'' of
           AString code \<Rightarrow>
             if code = ''7*6'' then Inr \<lparr>result_Content = [TextContent ''42''], IsError = False\<rparr>
             else if code = ''1+1'' then Inr \<lparr>result_Content = [TextContent ''2''], IsError = False\<rparr>
             else if code = ''plot()'' then
               Inr \<lparr>result_Content =
                      [OtherContent [''{<nil>}'', ''image'', ''iVBORw0KGgo='', ''image/png'']],
                    IsError = False\<rparr>
             else if code = ''pass'' then Inr \<lparr>result_Content = [], IsError = False\<rparr>
             else Inl ''execution failed''
         | _ \<Rightarrow> Inl ''missing code'')
      else if req_Name req = ''sandbox_stop'' then
        Inr \<lparr>result_Content = [TextContent ''stopped''], IsError = False\<rparr>
      else Inl ''unknown tool'',
      Suc served)"

definition example_server_env :: "string + unit \<Rightarrow> string + ListToolsResult \<Rightarrow> nat env" where
  "example_server_env initResult listResult =
     \<lparr>json_Unmarshal = example_Unmarshal,
      mcp_Initialize = (\<lambda>served. (initResult, Suc served)),
      mcp_ListTools = (\<lambda>served. (listResult, Suc served)),
      mcp_CallTool = example_CallTool\<rparr>"

definition example_env :: "nat env" where
  "example_env = example_server_env (Inr ()) (Inr example_tools)"

definition example_world :: "nat world" where
  "example_world = \<lparr>trace = [], server = 0\<rparr>"

text \<open>A call of the code execution tool with the given identifier and payload.\<close>

definition example_call :: "string \<Rightarrow> string \<Rightarrow> ToolCall" where
  "example_call ident payload =
     \<lparr>ID = ident, call_Function = \<lparr>call_Name = ''sandbox_run_code'', Arguments = payload\<rparr>\<rparr>"

text \<open>A completion with one choice: a text and tool call requests.\<close>

definition example_completion :: "string \<Rightarrow> ToolCall list \<Rightarrow> ChatCompletion" where
  "example_completion content toolCalls =
     \<lparr>Choices = [\<lparr>Message = \<lparr>msg_Content = content, ToolCalls = toolCalls\<rparr>\<rparr>]\<rparr>"

definition example_params :: ChatCompletionNewParams where
  "example_params =
     main_params (convertToolsSchema example_tools) ''google/gemini-2.5-flash'' ''compute 7*6''"

text \<open>The runs of the examples: the responses of a session with one tool call, a turn
  with two calls, and a turn whose second call has arguments that are not JSON, each
  with the parameters and the world it leads to.\<close>

definition example_responses :: "(string + ChatCompletion) list" where
  \<open>example_responses =
     [Inr (example_completion [] [example_call ''call_1'' ''{"code":"7*6"}'']),
      Inr (example_completion ''42'' [])]\<close>

definition example_request :: "string \<Rightarrow> CallToolRequest" where
  "example_request code =
     \<lparr>Method = ''tools/call'', req_Name = ''sandbox_run_code'',
      req_Arguments = Some [(''code'', AString code)]\<rparr>"

definition example_params_after :: ChatCompletionNewParams where
  \<open>example_params_after =
     example_params\<lparr>Messages := Messages example_params @
       [AssistantMessage [] [example_call ''call_1'' ''{"code":"7*6"}''],
        ToolMessage ''42'' ''call_1'']\<rparr>\<close>

definition example_two_calls :: "ToolCall list" where
  \<open>example_two_calls =
     [example_call ''call_1'' ''{"code":"7*6"}'', example_call ''call_2'' ''{"code": "1+1"}'']\<close>

definition example_choice_two_calls :: Choice where
  "example_choice_two_calls =
     \<lparr>Message = \<lparr>msg_Content = ''Computing.'', ToolCalls = example_two_calls\<rparr>\<rparr>"

definition example_turn_two_calls :: ChatCompletion where
  "example_turn_two_calls = \<lparr>Choices = [example_choice_two_calls]\<rparr>"

definition example_world_two_calls :: "nat world" where
  "example_world_two_calls =
     \<lparr>trace = [CompletionsNew example_params, PrintResultBox ''Computing.'',
               PrintCodeBox ''7*6'' ''python'', McpCallTool (example_request ''7*6''),
               PrintCodeBox ''1+1'' ''python'', McpCallTool (example_request ''1+1'')],
      server = 2\<rparr>"

definition example_params_two_calls :: ChatCompletionNewParams where
  "example_params_two_calls =
     example_params\<lparr>Messages := Messages example_params @
       [AssistantMessage ''Computing.'' example_two_calls,
        ToolMessage ''42'' ''call_1'', ToolMessage ''2'' ''call_2'']\<rparr>"










section \<open>Schema translation\<close>

lemma convertToolsSchema_loop_map:
  "convertToolsSchema_loop tools acc = acc @ map convertToolsSchema_tool tools"
  by (induction tools arbitrary: acc) simp_all

lemma convertToolsSchema_map:
  "convertToolsSchema tools = map convertToolsSchema_tool (Tools tools)"
  by (simp add: convertToolsSchema_def convertToolsSchema_loop_map)

lemma schema_type:
  "map_of (convertToolsSchema_schema tool) ''type'' = Some (AString ''object'')"
  by (simp add: convertToolsSchema_schema_def assign_def Let_def update_conv')

lemma schema_properties:
  "map_of (convertToolsSchema_schema tool) ''properties'' =
     Some (AMap (if 0 < len_map (Properties (InputSchema tool))
                 then Properties (InputSchema tool) else Some []))"
  by (simp add: convertToolsSchema_schema_def assign_def Let_def update_conv')

lemma schema_required:
  "map_of (convertToolsSchema_schema tool) ''required'' =
     (if Required (InputSchema tool) = [] then None
      else Some (AStrings (Required (InputSchema tool))))"
  by (simp add: convertToolsSchema_schema_def assign_def Let_def update_conv')

lemma schema_keys:
  "set (map fst (convertToolsSchema_schema tool)) =
     (if Required (InputSchema tool) = [] then {''type'', ''properties''}
      else {''type'', ''properties'', ''required''})"
  by (auto simp: convertToolsSchema_schema_def assign_def Let_def)

text \<open>
  Claim C4.  \<^verbatim>\<open>convertToolsSchema\<close> produces exactly one tool parameter per descriptor, in
  the order of the descriptors, with the descriptor's name and description.  In every
  produced schema the key \<^verbatim>\<open>type\<close> holds \<^verbatim>\<open>"object"\<close>; the key \<^verbatim>\<open>properties\<close> is always
  present and holds the descriptor's property map itself when that map has an entry, and
  an allocated empty map otherwise; the key \<^verbatim>\<open>required\<close> is present exactly when the
  descriptor's list of required names is not empty, and then holds that list; there is
  no other key.  This holds for every list of descriptors, the empty one included.
\<close>

theorem convertToolsSchema_shape:
  "length (convertToolsSchema tools) = length (Tools tools) \<and>
   (\<forall>i < length (Tools tools).
      fn_Name (Function (convertToolsSchema tools ! i)) = tool_Name (Tools tools ! i) \<and>
      fn_Description (Function (convertToolsSchema tools ! i)) = tool_Description (Tools tools ! i) \<and>
      map_of (Parameters (Function (convertToolsSchema tools ! i))) ''type'' =
        Some (AString ''object'') \<and>
      map_of (Parameters (Function (convertToolsSchema tools ! i))) ''properties'' =
        Some (AMap (if 0 < len_map (Properties (InputSchema (Tools tools ! i)))
                    then Properties (InputSchema (Tools tools ! i)) else Some [])) \<and>
      map_of (Parameters (Function (convertToolsSchema tools ! i))) ''required'' =
        (if Required (InputSchema (Tools tools ! i)) = [] then None
         else Some (AStrings (Required (InputSchema (Tools tools ! i))))) \<and>
      fst ` set (Parameters (Function (convertToolsSchema tools ! i))) \<subseteq>
        {''type'', ''properties'', ''required''})"
proof -
  have len: "length (convertToolsSchema tools) = length (Tools tools)"
    by (simp add: convertToolsSchema_map)
  have nth: "convertToolsSchema tools ! i = convertToolsSchema_tool (Tools tools ! i)"
    if "i < length (Tools tools)" for i
    using that by (simp add: convertToolsSchema_map)
  have keys: "fst ` set (convertToolsSchema_schema tool) \<subseteq> {''type'', ''properties'', ''required''}"
    for tool
    using schema_keys [of tool] by (auto split: if_splits)
  show ?thesis
    using len keys
    by (simp add: nth convertToolsSchema_tool_def schema_type schema_properties schema_required)
qed

theorem convertToolsSchema_shape_witness:
  "length (convertToolsSchema example_tools) = 2 \<and>
   map_of (Parameters (Function (convertToolsSchema example_tools ! 0))) ''type'' =
     Some (AString ''object'') \<and>
   map_of (Parameters (Function (convertToolsSchema example_tools ! 0))) ''properties'' =
     Some (AMap (Some [(''code'', AMap (Some [(''type'', AString ''string'')]))])) \<and>
   map_of (Parameters (Function (convertToolsSchema example_tools ! 0))) ''required'' =
     Some (AStrings [''code'']) \<and>
   map_of (Parameters (Function (convertToolsSchema example_tools ! 1))) ''type'' =
     Some (AString ''object'') \<and>
   map_of (Parameters (Function (convertToolsSchema example_tools ! 1))) ''properties'' =
     Some (AMap (Some [])) \<and>
   map_of (Parameters (Function (convertToolsSchema example_tools ! 1))) ''required'' = None"
proof -
  have two: "length (Tools example_tools) = 2"
    by (simp add: example_tools_def)
  have all: "\<forall>i<2.
      map_of (Parameters (Function (convertToolsSchema example_tools ! i))) ''type'' =
        Some (AString ''object'') \<and>
      map_of (Parameters (Function (convertToolsSchema example_tools ! i))) ''properties'' =
        Some (AMap (if 0 < len_map (Properties (InputSchema (Tools example_tools ! i)))
                    then Properties (InputSchema (Tools example_tools ! i)) else Some [])) \<and>
      map_of (Parameters (Function (convertToolsSchema example_tools ! i))) ''required'' =
        (if Required (InputSchema (Tools example_tools ! i)) = [] then None
         else Some (AStrings (Required (InputSchema (Tools example_tools ! i)))))"
    using convertToolsSchema_shape [of example_tools] by (simp add: two)
  have first: "(0::nat) < 2" and second: "(1::nat) < 2"
    by simp_all
  show ?thesis
    using convertToolsSchema_shape [of example_tools] all [rule_format, OF first]
      all [rule_format, OF second]
    by (simp add: example_tools_def len_map_def)
qed

lemma schema_Properties_back:
  "Properties (asToolInputSchema (convertToolsSchema_schema tool)) =
     (if 0 < len_map (Properties (InputSchema tool)) then Properties (InputSchema tool) else Some [])"
  by (simp add: asToolInputSchema_def schema_properties)

lemma schema_Required_back:
  "Required (asToolInputSchema (convertToolsSchema_schema tool)) = Required (InputSchema tool)"
  by (simp add: asToolInputSchema_def schema_required)

lemma schema_unfold:
  "convertToolsSchema_schema tool =
     [(''type'', AString ''object''),
      (''properties'', AMap (if 0 < len_map (Properties (InputSchema tool))
                             then Properties (InputSchema tool) else Some []))] @
     (if Required (InputSchema tool) = [] then []
      else [(''required'', AStrings (Required (InputSchema tool)))])"
  by (simp add: convertToolsSchema_schema_def assign_def Let_def)

lemma schema_again:
  "convertToolsSchema_schema (asTool (convertToolsSchema_tool tool)) = convertToolsSchema_schema tool"
proof -
  have nil: "len_map (Some []) = 0" by (simp add: len_map_def)
  have P: "Properties (InputSchema (asTool (convertToolsSchema_tool tool))) =
        (if 0 < len_map (Properties (InputSchema tool)) then Properties (InputSchema tool) else Some [])"
    by (simp add: asTool_def convertToolsSchema_tool_def schema_Properties_back)
  have R: "Required (InputSchema (asTool (convertToolsSchema_tool tool))) = Required (InputSchema tool)"
    by (simp add: asTool_def convertToolsSchema_tool_def schema_Required_back)
  show ?thesis
    unfolding schema_unfold [of "asTool (convertToolsSchema_tool tool)"] schema_unfold [of tool] P R
    by (simp add: nil)
qed

lemma tool_again:
  "convertToolsSchema_tool (asTool (convertToolsSchema_tool tool)) = convertToolsSchema_tool tool"
  by (simp add: convertToolsSchema_tool_def [of "asTool _"] schema_again)
    (simp add: convertToolsSchema_tool_def asTool_def)

text \<open>
  Claim C8.  Translation is idempotent: when the tool parameters that
  \<^verbatim>\<open>convertToolsSchema\<close> produced are read as tool descriptors again (name, description and
  the schema object as the input schema) and translated once more, the result is the
  same list of tool parameters.
\<close>

theorem convertToolsSchema_idempotent:
  "convertToolsSchema (asListToolsResult (convertToolsSchema tools)) = convertToolsSchema tools"
  by (simp add: convertToolsSchema_map asListToolsResult_def tool_again)

section \<open>Tool dispatch: what callTool returns and displays\<close>

lemmas example_defs =
  example_env_def example_server_env_def example_Unmarshal_def example_CallTool_def
  example_world_def example_call_def example_completion_def

lemmas eval_defs =
  example_defs callTool_def index_map_def printCodeBox_def Let_def AsTextContent_def
  main_iteration_def callCompletionsNew_def printResultBox_def ToParam_def

lemma callTool_Unmarshal_error:
  "json_Unmarshal env (Arguments (call_Function toolCall)) = Inl err \<Longrightarrow>
   callTool env toolCall w = (Err (FailedToUnmarshal err), w)"
  by (simp add: callTool_def)

lemma noStringCode_iff:
  "noStringCode args \<longleftrightarrow> (\<forall>code. index_map args ''code'' \<noteq> AString code)"
  by (auto simp: noStringCode_def index_map_def split: option.splits any.splits)

lemma callTool_not_string:
  assumes "json_Unmarshal env (Arguments (call_Function toolCall)) = Inr args"
    and "call_Name (call_Function toolCall) = ''sandbox_run_code''"
    and "\<forall>code. index_map args ''code'' \<noteq> AString code"
  shows "callTool env toolCall w = (Panic InterfaceConversion, w)"
  using assms by (cases "index_map args ''code''") (simp_all add: callTool_def)

text \<open>The path of \<^verbatim>\<open>callTool\<close> that reaches the tool server.\<close>

lemma callTool_invokes:
  assumes "json_Unmarshal env (Arguments (call_Function toolCall)) = Inr args"
    and "call_Name (call_Function toolCall) = ''sandbox_run_code'' \<and>
           index_map args ''code'' = AString code \<and> w1 = printCodeBox code ''python'' w
         \<or> call_Name (call_Function toolCall) \<noteq> ''sandbox_run_code'' \<and> w1 = w"
    and "req = \<lparr>Method = ''tools/call'', req_Name = call_Name (call_Function toolCall),
                 req_Arguments = args\<rparr>"
    and "mcp_CallTool env (server w1) req = (callResult, srv')"
  shows "callTool env toolCall w =
     (case callResult of
        Inl err \<Rightarrow> Err (FailedToCall err)
      | Inr toolResult \<Rightarrow>
          Ok (case result_Content toolResult of
                [] \<Rightarrow> ''''
              | c # cs \<Rightarrow> (case AsTextContent c of Some text \<Rightarrow> text | None \<Rightarrow> Sprintf_v c)),
      w1\<lparr>trace := trace w1 @ [McpCallTool req], server := srv'\<rparr>)"
  using assms by (auto simp: callTool_def split: sum.splits)

lemma callTool_no_panic:
  assumes "fst (callTool env toolCall w) = Panic p"
  shows "p = InterfaceConversion \<and> call_Name (call_Function toolCall) = ''sandbox_run_code'' \<and>
     (\<exists>args. json_Unmarshal env (Arguments (call_Function toolCall)) = Inr args \<and>
        (\<forall>code. index_map args ''code'' \<noteq> AString code))"
  using assms
  by (auto simp: callTool_def Let_def split: sum.splits if_splits any.splits prod.splits)

lemma Sprintf_v_nonempty: "Sprintf_v c \<noteq> ''''"
  by (cases c) (simp_all add: Sprintf_v_def)

text \<open>
  Claim C3.  Take a call whose arguments decode and that reaches the tool server (the
  tool is not the code execution tool, or the arguments hold a string under \<^verbatim>\<open>code\<close>),
  and let the server answer with a result.  Then \<^verbatim>\<open>callTool\<close> returns a text and no error:
  the empty text when the result has no content item; the text of the first item when
  that item is a text item; and otherwise the rendering \<^verbatim>\<open>%v\<close> of the first item, which is
  a function of the item alone and is never the empty text.  (A text item may hold the
  empty text, which is then the result.)
\<close>

theorem callTool_result_text:
  assumes decode: "json_Unmarshal env (Arguments (call_Function toolCall)) = Inr args"
    and code: "call_Name (call_Function toolCall) \<noteq> ''sandbox_run_code'' \<or> \<not> noStringCode args"
    and invoke: "fst (mcp_CallTool env (server w)
          \<lparr>Method = ''tools/call'', req_Name = call_Name (call_Function toolCall),
           req_Arguments = args\<rparr>) = Inr toolResult"
  shows "(result_Content toolResult = [] \<longrightarrow> fst (callTool env toolCall w) = Ok '''') \<and>
     (\<forall>text cs. result_Content toolResult = TextContent text # cs \<longrightarrow>
        fst (callTool env toolCall w) = Ok text) \<and>
     (\<forall>fs cs. result_Content toolResult = OtherContent fs # cs \<longrightarrow>
        fst (callTool env toolCall w) = Ok (Sprintf_v (OtherContent fs)) \<and>
        Sprintf_v (OtherContent fs) \<noteq> '''')"
proof -
  define req where "req = \<lparr>Method = ''tools/call'', req_Name = call_Name (call_Function toolCall),
           req_Arguments = args\<rparr>"
  obtain srv' where srv': "mcp_CallTool env (server w) req = (Inr toolResult, srv')"
    using invoke by (cases "mcp_CallTool env (server w) req") (simp add: req_def)
  have "fst (callTool env toolCall w) =
      Ok (case result_Content toolResult of
            [] \<Rightarrow> []
          | c # cs \<Rightarrow> (case AsTextContent c of Some text \<Rightarrow> text | None \<Rightarrow> Sprintf_v c))"
  proof (cases "call_Name (call_Function toolCall) = ''sandbox_run_code''")
    case True
    with code obtain c where c: "index_map args ''code'' = AString c"
      by (auto simp: noStringCode_iff)
    have s: "server (printCodeBox c ''python'' w) = server w"
      by (simp add: printCodeBox_def)
    from True c have "call_Name (call_Function toolCall) = ''sandbox_run_code'' \<and>
        index_map args ''code'' = AString c \<and> printCodeBox c ''python'' w = printCodeBox c ''python'' w
      \<or> call_Name (call_Function toolCall) \<noteq> ''sandbox_run_code'' \<and> printCodeBox c ''python'' w = w"
      by simp
    from callTool_invokes [OF decode this req_def, of "Inr toolResult" srv'] srv' s
    show ?thesis by simp
  next
    case False
    then have "call_Name (call_Function toolCall) = ''sandbox_run_code'' \<and>
        index_map args ''code'' = AString [] \<and> w = printCodeBox [] ''python'' w
      \<or> call_Name (call_Function toolCall) \<noteq> ''sandbox_run_code'' \<and> w = w"
      by simp
    from callTool_invokes [OF decode this req_def, of "Inr toolResult" srv'] srv'
    show ?thesis by simp
  qed
  then show ?thesis
    by (simp add: AsTextContent_def Sprintf_v_nonempty)
qed

theorem callTool_result_text_witness:
  \<open>fst (callTool example_env (example_call ''call_1'' ''{"code": "pass"}'') example_world) = Ok [] \<and>
   fst (callTool example_env (example_call ''call_2'' ''{"code":"7*6"}'') example_world) = Ok ''42'' \<and>
   fst (callTool example_env (example_call ''call_3'' ''{"code": "plot()"}'') example_world) =
     Ok ''{{<nil>} image iVBORw0KGgo= image/png}''\<close>
proof -
  have empty: \<open>fst (callTool example_env (example_call ''call_1'' ''{"code": "pass"}'') example_world) =
      Ok []\<close>
  proof -
    have decode: \<open>json_Unmarshal example_env
        (Arguments (call_Function (example_call ''call_1'' ''{"code": "pass"}''))) =
        Inr (Some [(''code'', AString ''pass'')])\<close>
      by (simp add: example_defs)
    have code: \<open>call_Name (call_Function (example_call ''call_1'' ''{"code": "pass"}'')) \<noteq>
        ''sandbox_run_code'' \<or> \<not> noStringCode (Some [(''code'', AString ''pass'')])\<close>
      by (simp add: noStringCode_def)
    have invoke: \<open>fst (mcp_CallTool example_env (server example_world)
          \<lparr>Method = ''tools/call'',
           req_Name = call_Name (call_Function (example_call ''call_1'' ''{"code": "pass"}'')),
           req_Arguments = Some [(''code'', AString ''pass'')]\<rparr>) =
        Inr \<lparr>result_Content = [], IsError = False\<rparr>\<close>
      by (simp add: example_defs index_map_def)
    from callTool_result_text [OF decode code invoke] show ?thesis
      by simp
  qed
  have textual: \<open>fst (callTool example_env (example_call ''call_2'' ''{"code":"7*6"}'') example_world) =
      Ok ''42''\<close>
  proof -
    have decode: \<open>json_Unmarshal example_env
        (Arguments (call_Function (example_call ''call_2'' ''{"code":"7*6"}''))) =
        Inr (Some [(''code'', AString ''7*6'')])\<close>
      by (simp add: example_defs)
    have code: \<open>call_Name (call_Function (example_call ''call_2'' ''{"code":"7*6"}'')) \<noteq>
        ''sandbox_run_code'' \<or> \<not> noStringCode (Some [(''code'', AString ''7*6'')])\<close>
      by (simp add: noStringCode_def)
    have invoke: \<open>fst (mcp_CallTool example_env (server example_world)
          \<lparr>Method = ''tools/call'',
           req_Name = call_Name (call_Function (example_call ''call_2'' ''{"code":"7*6"}'')),
           req_Arguments = Some [(''code'', AString ''7*6'')]\<rparr>) =
        Inr \<lparr>result_Content = [TextContent ''42''], IsError = False\<rparr>\<close>
      by (simp add: example_defs index_map_def)
    from callTool_result_text [OF decode code invoke] show ?thesis
      by simp
  qed
  have other: \<open>fst (callTool example_env (example_call ''call_3'' ''{"code": "plot()"}'') example_world) =
      Ok ''{{<nil>} image iVBORw0KGgo= image/png}''\<close>
  proof -
    have decode: \<open>json_Unmarshal example_env
        (Arguments (call_Function (example_call ''call_3'' ''{"code": "plot()"}''))) =
        Inr (Some [(''code'', AString ''plot()'')])\<close>
      by (simp add: example_defs)
    have code: \<open>call_Name (call_Function (example_call ''call_3'' ''{"code": "plot()"}'')) \<noteq>
        ''sandbox_run_code'' \<or> \<not> noStringCode (Some [(''code'', AString ''plot()'')])\<close>
      by (simp add: noStringCode_def)
    have invoke: \<open>fst (mcp_CallTool example_env (server example_world)
          \<lparr>Method = ''tools/call'',
           req_Name = call_Name (call_Function (example_call ''call_3'' ''{"code": "plot()"}'')),
           req_Arguments = Some [(''code'', AString ''plot()'')]\<rparr>) =
        Inr \<lparr>result_Content = [OtherContent [''{<nil>}'', ''image'', ''iVBORw0KGgo='', ''image/png'']],
             IsError = False\<rparr>\<close>
      by (simp add: example_defs index_map_def)
    from callTool_result_text [OF decode code invoke] show ?thesis
      by (simp add: Sprintf_v_def)
  qed
  from empty textual other show ?thesis by simp
qed

text \<open>
  Claim C7.  Take a call of the tool \<^verbatim>\<open>sandbox_run_code\<close>.  When its arguments decode and
  hold a string under \<^verbatim>\<open>code\<close>, \<^verbatim>\<open>callTool\<close> adds exactly two events to the trace: first
  the display of that string, unchanged, as Python code, then the request to the tool
  server; this is so whatever the server answers, and when the request fails the code was
  displayed and \<^verbatim>\<open>callTool\<close> returns the error of the call.  In every other case (the
  arguments do not decode, or hold no string under \<^verbatim>\<open>code\<close>) \<^verbatim>\<open>callTool\<close> leaves the world as
  it is and returns no text: the tool is never invoked without the display before it.
\<close>

theorem callTool_displays_code_first:
  assumes name: "call_Name (call_Function toolCall) = ''sandbox_run_code''"
  shows "(\<forall>args code.
        json_Unmarshal env (Arguments (call_Function toolCall)) = Inr args \<and>
        index_map args ''code'' = AString code \<longrightarrow>
        trace (snd (callTool env toolCall w)) =
          trace w @ [PrintCodeBox code ''python'',
                     McpCallTool \<lparr>Method = ''tools/call'', req_Name = ''sandbox_run_code'',
                                  req_Arguments = args\<rparr>] \<and>
        (\<forall>err. fst (mcp_CallTool env (server w)
                  \<lparr>Method = ''tools/call'', req_Name = ''sandbox_run_code'', req_Arguments = args\<rparr>) =
                Inl err \<longrightarrow>
           fst (callTool env toolCall w) = Err (FailedToCall err))) \<and>
     ((\<forall>args code.
        json_Unmarshal env (Arguments (call_Function toolCall)) = Inr args \<longrightarrow>
        index_map args ''code'' \<noteq> AString code) \<longrightarrow>
      snd (callTool env toolCall w) = w \<and> (\<forall>result. fst (callTool env toolCall w) \<noteq> Ok result))"
proof (intro conjI allI impI)
  fix args code
  assume a: "json_Unmarshal env (Arguments (call_Function toolCall)) = Inr args \<and>
        index_map args ''code'' = AString code"
  then show "trace (snd (callTool env toolCall w)) =
          trace w @ [PrintCodeBox code ''python'',
                     McpCallTool \<lparr>Method = ''tools/call'', req_Name = ''sandbox_run_code'',
                                  req_Arguments = args\<rparr>]"
    using name by (auto simp: callTool_def printCodeBox_def Let_def split: prod.splits sum.splits)
  fix err
  assume "fst (mcp_CallTool env (server w)
      \<lparr>Method = ''tools/call'', req_Name = ''sandbox_run_code'', req_Arguments = args\<rparr>) = Inl err"
  with a name show "fst (callTool env toolCall w) = Err (FailedToCall err)"
    by (auto simp: callTool_def printCodeBox_def Let_def split: prod.splits sum.splits)
next
  assume none: "\<forall>args code.
        json_Unmarshal env (Arguments (call_Function toolCall)) = Inr args \<longrightarrow>
        index_map args ''code'' \<noteq> AString code"
  show "snd (callTool env toolCall w) = w"
  proof (cases "json_Unmarshal env (Arguments (call_Function toolCall))")
    case (Inl err)
    then show ?thesis by (simp add: callTool_Unmarshal_error)
  next
    case (Inr args)
    with none have "\<forall>code. index_map args ''code'' \<noteq> AString code" by simp
    from callTool_not_string [OF Inr name this] show ?thesis by simp
  qed
  fix result
  show "fst (callTool env toolCall w) \<noteq> Ok result"
  proof (cases "json_Unmarshal env (Arguments (call_Function toolCall))")
    case (Inl err)
    then show ?thesis by (simp add: callTool_Unmarshal_error)
  next
    case (Inr args)
    with none have "\<forall>code. index_map args ''code'' \<noteq> AString code" by simp
    from callTool_not_string [OF Inr name this] show ?thesis by simp
  qed
qed

theorem callTool_displays_code_first_witness:
  \<open>trace (snd (callTool example_env (example_call ''call_1'' ''{"code": "1+1"}'') example_world)) =
     [PrintCodeBox ''1+1'' ''python'', McpCallTool (example_request ''1+1'')] \<and>
   fst (callTool example_env (example_call ''call_1'' ''{"code": "1+1"}'') example_world) = Ok ''2'' \<and>
   trace (snd (callTool example_env (example_call ''call_2'' ''{"code": "boom"}'') example_world)) =
     [PrintCodeBox ''boom'' ''python'', McpCallTool (example_request ''boom'')] \<and>
   fst (callTool example_env (example_call ''call_2'' ''{"code": "boom"}'') example_world) =
     Err (FailedToCall ''execution failed'') \<and>
   snd (callTool example_env (example_call ''call_3'' ''{"code": 7*'') example_world) = example_world\<close>
proof -
  have ok: \<open>fst (callTool example_env (example_call ''call_1'' ''{"code": "1+1"}'') example_world) =
      Ok ''2''\<close>
    by (simp add: eval_defs)
  have decode1: \<open>json_Unmarshal example_env
      (Arguments (call_Function (example_call ''call_1'' ''{"code": "1+1"}''))) =
      Inr (Some [(''code'', AString ''1+1'')])\<close>
    by (simp add: example_defs)
  have decode2: \<open>json_Unmarshal example_env
      (Arguments (call_Function (example_call ''call_2'' ''{"code": "boom"}''))) =
      Inr (Some [(''code'', AString ''boom'')])\<close>
    by (simp add: example_defs)
  have decode3: \<open>json_Unmarshal example_env
      (Arguments (call_Function (example_call ''call_3'' ''{"code": 7*''))) =
      Inl ''invalid character '*' after object key:value pair''\<close>
    by (simp add: example_defs)
  have name: "call_Name (call_Function (example_call ident payload)) = ''sandbox_run_code''"
    for ident payload
    by (simp add: example_call_def)
  have code: "index_map (Some [(''code'', AString c)]) ''code'' = AString c" for c
    by (simp add: index_map_def)
  have failed: "fst (mcp_CallTool example_env (server example_world)
      \<lparr>Method = ''tools/call'', req_Name = ''sandbox_run_code'',
       req_Arguments = Some [(''code'', AString ''boom'')]\<rparr>) = Inl ''execution failed''"
    by (simp add: example_defs index_map_def)
  have shown: "\<And>args code.
      json_Unmarshal example_env (Arguments (call_Function (example_call ident payload))) = Inr args \<Longrightarrow>
      index_map args ''code'' = AString code \<Longrightarrow>
      trace (snd (callTool example_env (example_call ident payload) example_world)) =
        trace example_world @ [PrintCodeBox code ''python'',
           McpCallTool \<lparr>Method = ''tools/call'', req_Name = ''sandbox_run_code'',
                        req_Arguments = args\<rparr>] \<and>
        (\<forall>err. fst (mcp_CallTool example_env (server example_world)
                  \<lparr>Method = ''tools/call'', req_Name = ''sandbox_run_code'', req_Arguments = args\<rparr>) =
                Inl err \<longrightarrow>
           fst (callTool example_env (example_call ident payload) example_world) =
             Err (FailedToCall err))" for ident payload
    using callTool_displays_code_first [of "example_call ident payload" example_env example_world,
        OF name] by blast
  have silent: "(\<forall>args code.
        json_Unmarshal example_env (Arguments (call_Function (example_call ident payload))) = Inr args \<longrightarrow>
        index_map args ''code'' \<noteq> AString code) \<Longrightarrow>
      snd (callTool example_env (example_call ident payload) example_world) = example_world"
    for ident payload
    using callTool_displays_code_first [of "example_call ident payload" example_env example_world,
        OF name] by blast
  from shown [OF decode1 code] shown [OF decode2 code] failed ok silent [of "''call_3''"] decode3
  show ?thesis
    by (simp add: example_world_def example_request_def)
qed

text \<open>
  Claim C9.  Let the arguments of a call decode.  If the tool is \<^verbatim>\<open>sandbox_run_code\<close> and
  the decoded map has no key \<^verbatim>\<open>code\<close> (the nil map included) or holds a value under it that
  is not a string, \<^verbatim>\<open>callTool\<close> panics on the type assertion: it returns no error value,
  displays nothing and sends no request.  In every other case \<^verbatim>\<open>callTool\<close> does not panic.
\<close>

theorem callTool_code_panic:
  assumes decode: "json_Unmarshal env (Arguments (call_Function toolCall)) = Inr args"
  shows "(call_Name (call_Function toolCall) = ''sandbox_run_code'' \<and> noStringCode args \<longrightarrow>
        callTool env toolCall w = (Panic InterfaceConversion, w)) \<and>
     (call_Name (call_Function toolCall) \<noteq> ''sandbox_run_code'' \<or> \<not> noStringCode args \<longrightarrow>
        (\<forall>p. fst (callTool env toolCall w) \<noteq> Panic p))"
  using callTool_not_string [OF decode, of w] callTool_no_panic [of env toolCall w] decode
  by (auto simp: noStringCode_iff)

theorem callTool_code_panic_witness:
  \<open>callTool example_env (example_call ''call_1'' ''{}'') example_world =
     (Panic InterfaceConversion, example_world) \<and>
   callTool example_env (example_call ''call_2'' ''null'') example_world =
     (Panic InterfaceConversion, example_world) \<and>
   callTool example_env (example_call ''call_3'' ''{"code": 1}'') example_world =
     (Panic InterfaceConversion, example_world) \<and>
   fst (callTool example_env (example_call ''call_4'' ''{"code":"7*6"}'') example_world) \<noteq>
     Panic InterfaceConversion\<close>
proof -
  have name: "call_Name (call_Function (example_call ident payload)) = ''sandbox_run_code''"
    for ident payload
    by (simp add: example_call_def)
  have d1: \<open>json_Unmarshal example_env (Arguments (call_Function (example_call ''call_1'' ''{}''))) =
      Inr (Some [])\<close>
    by (simp add: example_defs)
  have d2: \<open>json_Unmarshal example_env (Arguments (call_Function (example_call ''call_2'' ''null''))) =
      Inr None\<close>
    by (simp add: example_defs)
  have d3: \<open>json_Unmarshal example_env
      (Arguments (call_Function (example_call ''call_3'' ''{"code": 1}''))) =
      Inr (Some [(''code'', ANumber ''1'')])\<close>
    by (simp add: example_defs)
  have d4: \<open>json_Unmarshal example_env
      (Arguments (call_Function (example_call ''call_4'' ''{"code":"7*6"}''))) =
      Inr (Some [(''code'', AString ''7*6'')])\<close>
    by (simp add: example_defs)
  from callTool_code_panic [OF d1, of example_world] callTool_code_panic [OF d2, of example_world]
    callTool_code_panic [OF d3, of example_world] callTool_code_panic [OF d4, of example_world]
  show ?thesis
    by (simp add: name noStringCode_def)
qed

section \<open>Discovery: what toolList returns\<close>

text \<open>
  Claim C5.  \<^verbatim>\<open>toolList\<close> ends the process with a fatal error when the handshake fails
  (which is how a server that cannot be reached shows), when the list of tools cannot be
  fetched, and when the list is empty; with one tool or more it returns the list.  The
  trace shows that the handshake is requested once and the list at most once: nothing is
  tried again.
\<close>

theorem toolList_discovery:
  "(\<forall>err srv1. mcp_Initialize env (server w) = (Inl err, srv1) \<longrightarrow>
      toolList env w =
        (Inl (FatalInitialize err), w\<lparr>trace := trace w @ [McpInitialize], server := srv1\<rparr>)) \<and>
   (\<forall>u srv1 err srv2.
      mcp_Initialize env (server w) = (Inr u, srv1) \<and> mcp_ListTools env srv1 = (Inl err, srv2) \<longrightarrow>
      toolList env w =
        (Inl (FatalListTools err),
         w\<lparr>trace := trace w @ [McpInitialize, McpListTools], server := srv2\<rparr>)) \<and>
   (\<forall>u srv1 toolsResult srv2.
      mcp_Initialize env (server w) = (Inr u, srv1) \<and>
      mcp_ListTools env srv1 = (Inr toolsResult, srv2) \<and> Tools toolsResult = [] \<longrightarrow>
      toolList env w =
        (Inl FatalNoTools, w\<lparr>trace := trace w @ [McpInitialize, McpListTools], server := srv2\<rparr>)) \<and>
   (\<forall>u srv1 toolsResult srv2.
      mcp_Initialize env (server w) = (Inr u, srv1) \<and>
      mcp_ListTools env srv1 = (Inr toolsResult, srv2) \<and> Tools toolsResult \<noteq> [] \<longrightarrow>
      toolList env w =
        (Inr toolsResult, w\<lparr>trace := trace w @ [McpInitialize, McpListTools], server := srv2\<rparr>))"
proof (intro conjI allI impI)
  fix err srv1
  assume "mcp_Initialize env (server w) = (Inl err, srv1)"
  then show "toolList env w =
      (Inl (FatalInitialize err), w\<lparr>trace := trace w @ [McpInitialize], server := srv1\<rparr>)"
    by (simp add: toolList_def)
next
  fix u srv1 err srv2
  assume "mcp_Initialize env (server w) = (Inr u, srv1) \<and> mcp_ListTools env srv1 = (Inl err, srv2)"
  then show "toolList env w =
      (Inl (FatalListTools err),
       w\<lparr>trace := trace w @ [McpInitialize, McpListTools], server := srv2\<rparr>)"
    by (simp add: toolList_def)
next
  fix u srv1 toolsResult srv2
  assume "mcp_Initialize env (server w) = (Inr u, srv1) \<and>
      mcp_ListTools env srv1 = (Inr toolsResult, srv2) \<and> Tools toolsResult = []"
  then show "toolList env w =
      (Inl FatalNoTools, w\<lparr>trace := trace w @ [McpInitialize, McpListTools], server := srv2\<rparr>)"
    by (simp add: toolList_def)
next
  fix u srv1 toolsResult srv2
  assume "mcp_Initialize env (server w) = (Inr u, srv1) \<and>
      mcp_ListTools env srv1 = (Inr toolsResult, srv2) \<and> Tools toolsResult \<noteq> []"
  then show "toolList env w =
      (Inr toolsResult, w\<lparr>trace := trace w @ [McpInitialize, McpListTools], server := srv2\<rparr>)"
    by (simp add: toolList_def)
qed

theorem toolList_discovery_witness:
  "toolList (example_server_env (Inl ''connection refused'') (Inr example_tools)) example_world =
     (Inl (FatalInitialize ''connection refused''), \<lparr>trace = [McpInitialize], server = 1\<rparr>) \<and>
   toolList (example_server_env (Inr ()) (Inl ''bad response'')) example_world =
     (Inl (FatalListTools ''bad response''),
      \<lparr>trace = [McpInitialize, McpListTools], server = 2\<rparr>) \<and>
   toolList (example_server_env (Inr ()) (Inr \<lparr>Tools = []\<rparr>)) example_world =
     (Inl FatalNoTools, \<lparr>trace = [McpInitialize, McpListTools], server = 2\<rparr>) \<and>
   toolList example_env example_world =
     (Inr example_tools, \<lparr>trace = [McpInitialize, McpListTools], server = 2\<rparr>)"
proof -
  have tools: "Tools example_tools \<noteq> []"
    by (simp add: example_tools_def)
  show ?thesis
    using toolList_discovery [of "example_server_env (Inl ''connection refused'') (Inr example_tools)"
        example_world]
      toolList_discovery [of "example_server_env (Inr ()) (Inl ''bad response'')" example_world]
      toolList_discovery [of "example_server_env (Inr ()) (Inr \<lparr>Tools = []\<rparr>)" example_world]
      toolList_discovery [of example_env example_world] tools
    by (simp add: example_env_def example_server_env_def example_world_def)
qed

section \<open>The agent loop\<close>

subsection \<open>Traces\<close>

lemma completionCalls_append [simp]:
  "completionCalls (xs @ ys) = completionCalls xs @ completionCalls ys"
  by (simp add: completionCalls_def)

lemma completionCalls_simps [simp]:
  "completionCalls [] = []"
  "completionCalls (CompletionsNew p # evs) = p # completionCalls evs"
  "completionCalls (McpCallTool req # evs) = completionCalls evs"
  "completionCalls (PrintCodeBox c l # evs) = completionCalls evs"
  "completionCalls (PrintResultBox c # evs) = completionCalls evs"
  "completionCalls (McpInitialize # evs) = completionCalls evs"
  "completionCalls (McpListTools # evs) = completionCalls evs"
  by (simp_all add: completionCalls_def)

lemma callTool_trace:
  "\<exists>evs. trace (snd (callTool env toolCall w)) = trace w @ evs \<and> completionCalls evs = []"
  by (auto simp: callTool_def printCodeBox_def Let_def
      split: sum.splits if_splits any.splits prod.splits)

lemma main_toolCalls_trace:
  "\<exists>evs. trace (step_world (main_toolCalls env toolCalls params w)) = trace w @ evs \<and>
     completionCalls evs = []"
proof (induction toolCalls arbitrary: params w)
  case Nil
  then show ?case by (simp add: step_world_def)
next
  case (Cons toolCall toolCalls)
  obtain r w1 where call: "callTool env toolCall w = (r, w1)"
    by (cases "callTool env toolCall w")
  from callTool_trace [of env toolCall w] call
  obtain evs where evs: "trace w1 = trace w @ evs" "completionCalls evs = []"
    by auto
  show ?case
  proof (cases r)
    case (Ok result)
    from Cons.IH [of "params\<lparr>Messages := Messages params @ [ToolMessage result (ID toolCall)]\<rparr>" w1]
    obtain evs' where
      "trace (step_world (main_toolCalls env toolCalls
          (params\<lparr>Messages := Messages params @ [ToolMessage result (ID toolCall)]\<rparr>) w1)) =
        trace w1 @ evs'" "completionCalls evs' = []"
      by auto
    with call Ok evs show ?thesis
      by (intro exI [of _ "evs @ evs'"]) simp
  next
    case (Err err)
    with call evs show ?thesis by (simp add: step_world_def)
  next
    case (Panic p)
    with call evs show ?thesis by (simp add: step_world_def)
  qed
qed

lemma main_iteration_trace:
  "\<exists>evs. trace (step_world (main_iteration env response params w)) = trace w @ evs \<and>
     completionCalls evs = []"
proof (cases response)
  case (Inl err)
  then show ?thesis by (simp add: main_iteration_def step_world_def)
next
  case (Inr completion)
  show ?thesis
  proof (cases "Choices completion")
    case Nil
    with Inr show ?thesis by (simp add: main_iteration_def step_world_def)
  next
    case (Cons choice choices)
    define w1 where "w1 = (if msg_Content (Message choice) \<noteq> []
        then printResultBox (msg_Content (Message choice)) w else w)"
    have w1: "\<exists>evs. trace w1 = trace w @ evs \<and> completionCalls evs = []"
      by (simp add: w1_def printResultBox_def)
    then obtain evs where evs: "trace w1 = trace w @ evs" "completionCalls evs = []"
      by auto
    show ?thesis
    proof (cases "ToolCalls (Message choice) = []")
      case True
      with Inr Cons evs show ?thesis
        by (simp add: main_iteration_def step_world_def w1_def [symmetric] del: if_split)
    next
      case False
      from main_toolCalls_trace [of env "ToolCalls (Message choice)"
          "params\<lparr>Messages := Messages params @ [ToParam (Message choice)]\<rparr>" w1]
      obtain evs' where "trace (step_world (main_toolCalls env (ToolCalls (Message choice))
          (params\<lparr>Messages := Messages params @ [ToParam (Message choice)]\<rparr>) w1)) = trace w1 @ evs'"
        "completionCalls evs' = []"
        by auto
      with Inr Cons evs False show ?thesis
        by (intro exI [of _ "evs @ evs'"])
          (simp add: main_iteration_def w1_def [symmetric] Let_def del: if_split)
    qed
  qed
qed

subsection \<open>How an iteration ends\<close>

lemma main_toolCalls_not_Break: "main_toolCalls env toolCalls params w \<noteq> Stop Break params' w'"
proof (induction toolCalls arbitrary: params w)
  case Nil
  then show ?case by simp
next
  case (Cons toolCall toolCalls)
  then show ?case
    by (cases "callTool env toolCall w") (auto split: returned.splits)
qed

lemma main_toolCalls_not_IndexOutOfRange:
  "main_toolCalls env toolCalls params w \<noteq> Stop (Panicked IndexOutOfRange) params' w'"
proof (induction toolCalls arbitrary: params w)
  case Nil
  then show ?case by simp
next
  case (Cons toolCall toolCalls)
  obtain r w1 where call: "callTool env toolCall w = (r, w1)"
    by (cases "callTool env toolCall w")
  show ?case
  proof (cases r)
    case (Panic p)
    with call callTool_no_panic [of env toolCall w p] show ?thesis by auto
  qed (use call Cons in auto)
qed

lemma main_iteration_Continue:
  assumes "main_iteration env response params w = Continue params' w'"
  shows "someToolCalls response"
  using assms
  by (auto simp: main_iteration_def someToolCalls_def requestedCalls_def Let_def
      split: sum.splits list.splits if_splits)

lemma main_iteration_Stop:
  assumes "main_iteration env response params w = Stop e params' w'"
  shows "e = Break \<longleftrightarrow> noToolCalls response"
  using assms main_toolCalls_not_Break [of env _ _ _ params' w']
  by (auto simp: main_iteration_def noToolCalls_def requestedCalls_def Let_def
      split: sum.splits list.splits if_splits)

lemma some_not_no: "someToolCalls response \<Longrightarrow> \<not> noToolCalls response"
  by (auto simp: someToolCalls_def noToolCalls_def)

lemma main_iteration_calls:
  assumes "Choices completion = choice # choices" and "ToolCalls (Message choice) \<noteq> []"
  shows "main_iteration env (Inr completion) params w =
     main_toolCalls env (ToolCalls (Message choice))
       (params\<lparr>Messages := Messages params @ [ToParam (Message choice)]\<rparr>)
       (displayed (Message choice) w)"
  using assms by (simp add: main_iteration_def displayed_def)

text \<open>
  Claim C10.  When a completion has an empty list of choices, the iteration panics with
  an index out of range as soon as it reads the first choice, and the loop ends there,
  with the conversation unchanged; this is not the fatal error of a failed completion
  call.  When the list of choices is not empty, an iteration never ends with that panic.
\<close>

theorem main_iteration_no_choice:
  "(Choices completion = [] \<longrightarrow>
      main_iteration env (Inr completion) params w = Stop (Panicked IndexOutOfRange) params w \<and>
      main_loop env (Inr completion # responses) n params w =
        Finished (Panicked IndexOutOfRange) (Suc n) params (callCompletionsNew params w)) \<and>
   (Choices completion \<noteq> [] \<longrightarrow>
      (\<forall>params' w'. main_iteration env (Inr completion) params w \<noteq>
         Stop (Panicked IndexOutOfRange) params' w'))"
proof -
  have "main_iteration env (Inr completion) params w \<noteq> Stop (Panicked IndexOutOfRange) params' w'"
    if "Choices completion \<noteq> []" for params' w'
  proof -
    from that obtain choice choices where c: "Choices completion = choice # choices"
      by (cases "Choices completion") auto
    show ?thesis
    proof (cases "ToolCalls (Message choice) = []")
      case True
      with c show ?thesis by (simp add: main_iteration_def)
    next
      case False
      from main_iteration_calls [OF c False] main_toolCalls_not_IndexOutOfRange
      show ?thesis by metis
    qed
  qed
  then show ?thesis
    by (auto simp: main_iteration_def)
qed

theorem main_iteration_no_choice_witness:
  "main_iteration example_env (Inr \<lparr>Choices = []\<rparr>) example_params example_world =
     Stop (Panicked IndexOutOfRange) example_params example_world \<and>
   main_loop example_env (Inr \<lparr>Choices = []\<rparr> # [Inr (example_completion ''42'' [])]) 0
       example_params example_world =
     Finished (Panicked IndexOutOfRange) (Suc 0) example_params
       (callCompletionsNew example_params example_world) \<and>
   main_iteration example_env (Inr (example_completion ''42'' [])) example_params example_world \<noteq>
     Stop (Panicked IndexOutOfRange) example_params example_world"
  using main_iteration_no_choice [of "\<lparr>Choices = []\<rparr>" example_env example_params example_world
      "[Inr (example_completion ''42'' [])]" 0]
    main_iteration_no_choice [of "example_completion ''42'' []" example_env example_params
      example_world "[]" 0]
  by (simp add: example_completion_def)

subsection \<open>Termination\<close>

lemma main_loop_Finished:
  assumes "main_loop env responses n params w = Finished e m params' w'"
  shows "\<exists>k. m = n + k \<and> 0 < k \<and> k \<le> length responses \<and>
     length (completionCalls (trace w')) = length (completionCalls (trace w)) + k \<and>
     (e = Break \<longleftrightarrow> noToolCalls (responses ! (k - 1))) \<and>
     (\<forall>i<k - 1. someToolCalls (responses ! i))"
  using assms
proof (induction responses arbitrary: n params w)
  case Nil
  then show ?case by simp
next
  case (Cons response responses)
  define w0 where "w0 = callCompletionsNew params w"
  have w0: "completionCalls (trace w0) = completionCalls (trace w) @ [params]"
    by (simp add: w0_def callCompletionsNew_def)
  from main_iteration_trace [of env response params w0]
  obtain evs where evs:
    "trace (step_world (main_iteration env response params w0)) = trace w0 @ evs"
    "completionCalls evs = []"
    by auto
  show ?case
  proof (cases "main_iteration env response params w0")
    case (Continue p1 w1)
    with Cons.prems have run: "main_loop env responses (Suc n) p1 w1 = Finished e m params' w'"
      by (simp add: w0_def)
    from Continue evs w0 have calls: "length (completionCalls (trace w1)) =
        length (completionCalls (trace w)) + 1"
      by (simp add: step_world_def)
    from Continue have some: "someToolCalls response"
      by (rule main_iteration_Continue)
    from Cons.IH [OF run] obtain k where k: "m = Suc n + k" "0 < k" "k \<le> length responses"
      "length (completionCalls (trace w')) = length (completionCalls (trace w1)) + k"
      "e = Break \<longleftrightarrow> noToolCalls (responses ! (k - 1))"
      "\<forall>i<k - 1. someToolCalls (responses ! i)"
      by auto
    have "\<forall>i<Suc k - 1. someToolCalls ((response # responses) ! i)"
    proof (intro allI impI)
      fix i assume "i < Suc k - 1"
      then show "someToolCalls ((response # responses) ! i)"
        using some k(2,6) by (cases i) auto
    qed
    moreover have "(response # responses) ! (Suc k - 1) = responses ! (k - 1)"
      using k(2) by (cases k) auto
    ultimately show ?thesis
      using k calls by (intro exI [of _ "Suc k"]) simp
  next
    case (Stop e1 p1 w1)
    with Cons.prems have eq: "e1 = e" "m = Suc n" "p1 = params'" "w1 = w'"
      by (simp_all add: w0_def)
    from Stop evs w0 eq have calls: "length (completionCalls (trace w')) =
        length (completionCalls (trace w)) + 1"
      by (simp add: step_world_def)
    from main_iteration_Stop [OF Stop] eq have "e = Break \<longleftrightarrow> noToolCalls response"
      by simp
    with eq calls show ?thesis
      by (intro exI [of _ 1]) simp
  qed
qed

lemma main_loop_Awaiting:
  assumes "main_loop env responses n params w = AwaitingCompletion m params' w'"
  shows "(\<forall>r \<in> set responses. someToolCalls r) \<and> m = n + length responses"
  using assms
proof (induction responses arbitrary: n params w)
  case Nil
  then show ?case by simp
next
  case (Cons response responses)
  show ?case
  proof (cases "main_iteration env response params (callCompletionsNew params w)")
    case (Continue p1 w1)
    with Cons.prems have "main_loop env responses (Suc n) p1 w1 = AwaitingCompletion m params' w'"
      by simp
    from Cons.IH [OF this] main_iteration_Continue [OF Continue] show ?thesis
      by simp
  next
    case (Stop e1 p1 w1)
    with Cons.prems show ?thesis by simp
  qed
qed

lemma main_toolCalls_all_Ok:
  assumes "\<forall>toolCall \<in> set toolCalls. \<forall>w. \<exists>result w'. callTool env toolCall w = (Ok result, w')"
  shows "\<exists>params' w'. main_toolCalls env toolCalls params w = Continue params' w'"
  using assms
proof (induction toolCalls arbitrary: params w)
  case Nil
  then show ?case by simp
next
  case (Cons toolCall toolCalls)
  from Cons.prems obtain result w1 where call: "callTool env toolCall w = (Ok result, w1)"
    by fastforce
  from Cons.prems have
    "\<forall>toolCall \<in> set toolCalls. \<forall>w. \<exists>result w'. callTool env toolCall w = (Ok result, w')"
    by simp
  from Cons.IH [OF this] call show ?case
    by simp
qed

lemma main_iteration_all_Ok:
  assumes "Choices completion = choice # choices"
    and "\<forall>toolCall \<in> set (ToolCalls (Message choice)).
           \<forall>w. \<exists>result w'. callTool env toolCall w = (Ok result, w')"
  shows "\<forall>e params' w'. main_iteration env (Inr completion) params w = Stop e params' w' \<longrightarrow>
           e = Break"
proof (cases "ToolCalls (Message choice) = []")
  case True
  with assms(1) show ?thesis
    by (simp add: main_iteration_def)
next
  case False
  from main_toolCalls_all_Ok [OF assms(2)] main_iteration_calls [OF assms(1) False]
  show ?thesis by (metis step.distinct(1))
qed

lemma main_loop_all_Ok:
  assumes "\<forall>response \<in> set responses. \<exists>completion choice choices.
      response = Inr completion \<and> Choices completion = choice # choices \<and>
      (\<forall>toolCall \<in> set (ToolCalls (Message choice)).
         \<forall>w. \<exists>result w'. callTool env toolCall w = (Ok result, w'))"
    and "main_loop env responses n params w = Finished e m params' w'"
  shows "e = Break"
  using assms
proof (induction responses arbitrary: n params w)
  case Nil
  then show ?case by simp
next
  case (Cons response responses)
  from Cons.prems(1) obtain completion choice choices where r: "response = Inr completion"
    "Choices completion = choice # choices"
    "\<forall>toolCall \<in> set (ToolCalls (Message choice)).
         \<forall>w. \<exists>result w'. callTool env toolCall w = (Ok result, w')"
    by auto
  show ?case
  proof (cases "main_iteration env response params (callCompletionsNew params w)")
    case (Continue p1 w1)
    with Cons.prems(2) have "main_loop env responses (Suc n) p1 w1 = Finished e m params' w'"
      by simp
    moreover from Cons.prems(1) have "\<forall>response \<in> set responses. \<exists>completion choice choices.
      response = Inr completion \<and> Choices completion = choice # choices \<and>
      (\<forall>toolCall \<in> set (ToolCalls (Message choice)).
         \<forall>w. \<exists>result w'. callTool env toolCall w = (Ok result, w'))"
      by simp
    ultimately show ?thesis
      by (rule Cons.IH [rotated])
  next
    case (Stop e1 p1 w1)
    with Cons.prems(2) have "e1 = e" by simp
    with Stop r main_iteration_all_Ok [OF r(2,3), of params "callCompletionsNew params w"]
    show ?thesis by simp
  qed
qed

text \<open>
  Claim C1.  Run the loop against a list of responses whose last one carries no tool
  call request.  Then the loop ends after some number \<open>k\<close> of turns, at least one and at
  most the number of responses, and it made exactly \<open>k\<close> calls of the completion API.  It
  ends by \<^verbatim>\<open>break\<close> exactly when the response of its last turn carries no tool call
  request, and the responses of all turns before carried at least one, so that \<^verbatim>\<open>break\<close>
  is taken at the first response without a request.  \<^verbatim>\<open>break\<close> is the only way out of the
  loop; the run can only end otherwise by a fatal error or a panic, which end the
  process, and it does not when every response is a completion with a choice and every
  requested call is one that \<^verbatim>\<open>callTool\<close> answers with a text.
\<close>

theorem main_loop_terminates:
  assumes nonempty: "responses \<noteq> []"
    and final: "noToolCalls (last responses)"
  shows "\<exists>e k params' w'.
     main_loop env responses 0 params w = Finished e k params' w' \<and>
     0 < k \<and> k \<le> length responses \<and>
     length (completionCalls (trace w')) = length (completionCalls (trace w)) + k \<and>
     (e = Break \<longleftrightarrow> noToolCalls (responses ! (k - 1))) \<and>
     (\<forall>i<k - 1. someToolCalls (responses ! i)) \<and>
     ((\<forall>response \<in> set responses. \<exists>completion choice choices.
         response = Inr completion \<and> Choices completion = choice # choices \<and>
         (\<forall>toolCall \<in> set (ToolCalls (Message choice)).
            \<forall>w. \<exists>result w'. callTool env toolCall w = (Ok result, w'))) \<longrightarrow>
      e = Break)"
proof (cases "main_loop env responses 0 params w")
  case (Finished e m params' w')
  from main_loop_Finished [OF this] main_loop_all_Ok [OF _ this] show ?thesis
    using Finished by auto
next
  case (AwaitingCompletion m params' w')
  from main_loop_Awaiting [OF this] nonempty have "someToolCalls (last responses)"
    by simp
  with final show ?thesis
    by (simp add: some_not_no)
qed

theorem main_loop_terminates_witness:
  "example_responses \<noteq> [] \<and> noToolCalls (last example_responses) \<and>
   list_all (\<lambda>response. \<exists>completion choice choices.
       response = Inr completion \<and> Choices completion = choice # choices \<and>
       (\<forall>toolCall \<in> set (ToolCalls (Message choice)).
          \<forall>w. \<exists>result w'. callTool example_env toolCall w = (Ok result, w')))
     example_responses \<and>
   main_loop example_env example_responses 0 example_params example_world =
     Finished Break 2 example_params_after
       \<lparr>trace = [CompletionsNew example_params, PrintCodeBox ''7*6'' ''python'',
                 McpCallTool (example_request ''7*6''), CompletionsNew example_params_after,
                 PrintResultBox ''42''],
        server = 1\<rparr> \<and>
   (\<exists>e k params' w'.
     main_loop example_env example_responses 0 example_params example_world =
       Finished e k params' w' \<and>
     0 < k \<and> k \<le> length example_responses \<and>
     length (completionCalls (trace w')) = length (completionCalls (trace example_world)) + k \<and>
     (e = Break \<longleftrightarrow> noToolCalls (example_responses ! (k - 1))) \<and>
     (\<forall>i<k - 1. someToolCalls (example_responses ! i)) \<and> e = Break)"
proof -
  have nonempty: "example_responses \<noteq> []"
    by (simp add: example_responses_def)
  have final: "noToolCalls (last example_responses)"
    by (simp add: example_responses_def noToolCalls_def requestedCalls_def example_completion_def)
  have call: \<open>\<exists>result w'. callTool example_env (example_call ''call_1'' ''{"code":"7*6"}'') w =
      (Ok result, w')\<close> for w
    by (simp add: eval_defs)
  have ok: "\<forall>response \<in> set example_responses. \<exists>completion choice choices.
       response = Inr completion \<and> Choices completion = choice # choices \<and>
       (\<forall>toolCall \<in> set (ToolCalls (Message choice)).
          \<forall>w. \<exists>result w'. callTool example_env toolCall w = (Ok result, w'))"
    using call by (simp add: example_responses_def example_completion_def)
  have run: "main_loop example_env example_responses 0 example_params example_world =
     Finished Break 2 example_params_after
       \<lparr>trace = [CompletionsNew example_params, PrintCodeBox ''7*6'' ''python'',
                 McpCallTool (example_request ''7*6''), CompletionsNew example_params_after,
                 PrintResultBox ''42''],
        server = 1\<rparr>"
    by (simp add: example_responses_def example_params_after_def example_request_def eval_defs)
  from main_loop_terminates [OF nonempty final, of example_env example_params example_world] ok
  have "\<exists>e k params' w'.
     main_loop example_env example_responses 0 example_params example_world =
       Finished e k params' w' \<and>
     0 < k \<and> k \<le> length example_responses \<and>
     length (completionCalls (trace w')) = length (completionCalls (trace example_world)) + k \<and>
     (e = Break \<longleftrightarrow> noToolCalls (example_responses ! (k - 1))) \<and>
     (\<forall>i<k - 1. someToolCalls (example_responses ! i)) \<and> e = Break"
    by blast
  with nonempty final ok run show ?thesis
    by (simp add: list_all_iff)
qed

subsection \<open>The calls of one turn\<close>

lemma toolMessages_simps [simp]:
  "toolMessages [] toolCalls = []"
  "toolMessages results [] = []"
  "toolMessages (result # results) (toolCall # toolCalls) =
     ToolMessage result (ID toolCall) # toolMessages results toolCalls"
  by (simp_all add: toolMessages_def)

lemma dispatched_length: "dispatched env w toolCalls results w' \<Longrightarrow> length results = length toolCalls"
  by (induction rule: dispatched.induct) simp_all

lemma toolMessages_ids:
  "length results = length toolCalls \<Longrightarrow>
   map toolResultID (toolMessages results toolCalls) = map (Some \<circ> ID) toolCalls"
  by (induction results toolCalls rule: list_induct2) simp_all


lemma main_toolCalls_Continue:
  assumes "main_toolCalls env toolCalls params w = Continue params' w'"
  shows "\<exists>results. dispatched env w toolCalls results w' \<and>
     params' = params\<lparr>Messages := Messages params @ toolMessages results toolCalls\<rparr>"
  using assms
proof (induction toolCalls arbitrary: params w)
  case Nil
  then show ?case by (auto intro: dispatched_Nil)
next
  case (Cons toolCall toolCalls)
  obtain r w1 where call: "callTool env toolCall w = (r, w1)"
    by (cases "callTool env toolCall w")
  with Cons.prems obtain result where r: "r = Ok result"
    by (cases r) auto
  with call Cons.prems have "main_toolCalls env toolCalls
      (params\<lparr>Messages := Messages params @ [ToolMessage result (ID toolCall)]\<rparr>) w1 =
      Continue params' w'"
    by simp
  from Cons.IH [OF this] obtain results where
    d: "dispatched env w1 toolCalls results w'" and
    p: "params' = params\<lparr>Messages := Messages params @ [ToolMessage result (ID toolCall)] @
          toolMessages results toolCalls\<rparr>"
    by auto
  from call r d have "dispatched env w (toolCall # toolCalls) (result # results) w'"
    by (auto intro: dispatched_Cons)
  with p show ?case
    by (intro exI [of _ "result # results"]) simp
qed

lemma main_loop_first_call:
  "\<exists>evs. trace (run_world (main_loop env responses n params w)) =
     trace w @ CompletionsNew params # evs"
proof (induction responses arbitrary: n params w)
  case Nil
  then show ?case by (simp add: run_world_def callCompletionsNew_def)
next
  case (Cons response responses)
  define w0 where "w0 = callCompletionsNew params w"
  have w0: "trace w0 = trace w @ [CompletionsNew params]"
    by (simp add: w0_def callCompletionsNew_def)
  from main_iteration_trace [of env response params w0]
  obtain evs where evs:
    "trace (step_world (main_iteration env response params w0)) = trace w0 @ evs"
    by auto
  show ?case
  proof (cases "main_iteration env response params w0")
    case (Continue p1 w1)
    from Cons.IH [of "Suc n" p1 w1] obtain evs' where
      "trace (run_world (main_loop env responses (Suc n) p1 w1)) = trace w1 @ CompletionsNew p1 # evs'"
      by auto
    with Continue evs w0 show ?thesis
      by (simp add: w0_def [symmetric] step_world_def)
  next
    case (Stop e1 p1 w1)
    with evs w0 show ?thesis
      by (simp add: w0_def [symmetric] step_world_def run_world_def)
  qed
qed

text \<open>
  Claim C2.  Take a turn whose response carries one tool call request or more and after
  which the loop goes on.  Then every requested call was dispatched, in the order of the
  requests, each returning a text; the conversation has grown by the assistant's message
  (its text and its requests) followed by exactly one tool-result message per request,
  which carries the identifier of that request and the text its dispatch returned, in
  the order of the requests; nothing else of the parameters changed; and the next call of
  the completion API, the first event after this turn, is made with these parameters.
\<close>

theorem main_iteration_tool_results:
  assumes choice: "Choices completion = choice # choices"
    and calls: "ToolCalls (Message choice) \<noteq> []"
    and continue: "main_iteration env (Inr completion) params (callCompletionsNew params w) =
          Continue params' w'"
  shows "\<exists>results.
     dispatched env (displayed (Message choice) (callCompletionsNew params w))
       (ToolCalls (Message choice)) results w' \<and>
     length results = length (ToolCalls (Message choice)) \<and>
     params' = params\<lparr>Messages := Messages params @
         AssistantMessage (msg_Content (Message choice)) (ToolCalls (Message choice)) #
         toolMessages results (ToolCalls (Message choice))\<rparr> \<and>
     map toolResultID (toolMessages results (ToolCalls (Message choice))) =
       map (Some \<circ> ID) (ToolCalls (Message choice)) \<and>
     (\<exists>evs. trace (run_world (main_loop env (Inr completion # responses) n params w)) =
        trace w' @ CompletionsNew params' # evs)"
proof -
  from continue
  have "main_toolCalls env (ToolCalls (Message choice))
       (params\<lparr>Messages := Messages params @ [ToParam (Message choice)]\<rparr>)
       (displayed (Message choice) (callCompletionsNew params w)) = Continue params' w'"
    unfolding main_iteration_calls [OF choice calls] .
  from main_toolCalls_Continue [OF this] obtain results where
    d: "dispatched env (displayed (Message choice) (callCompletionsNew params w))
       (ToolCalls (Message choice)) results w'" and
    p: "params' = params\<lparr>Messages := Messages params @
         AssistantMessage (msg_Content (Message choice)) (ToolCalls (Message choice)) #
         toolMessages results (ToolCalls (Message choice))\<rparr>"
    by (auto simp: ToParam_def)
  from d have len: "length results = length (ToolCalls (Message choice))"
    by (rule dispatched_length)
  have "main_loop env (Inr completion # responses) n params w =
      main_loop env responses (Suc n) params' w'"
    using continue by simp
  with main_loop_first_call [of env responses "Suc n" params' w']
  have "\<exists>evs. trace (run_world (main_loop env (Inr completion # responses) n params w)) =
        trace w' @ CompletionsNew params' # evs"
    by simp
  with d p len toolMessages_ids [OF len] show ?thesis
    by blast
qed

theorem main_iteration_tool_results_witness:
  "Choices example_turn_two_calls = example_choice_two_calls # [] \<and>
   ToolCalls (Message example_choice_two_calls) \<noteq> [] \<and>
   main_iteration example_env (Inr example_turn_two_calls) example_params
     (callCompletionsNew example_params example_world) =
     Continue example_params_two_calls example_world_two_calls \<and>
   (\<exists>results.
     dispatched example_env
       (displayed (Message example_choice_two_calls)
          (callCompletionsNew example_params example_world))
       (ToolCalls (Message example_choice_two_calls)) results example_world_two_calls \<and>
     length results = length (ToolCalls (Message example_choice_two_calls)) \<and>
     example_params_two_calls = example_params\<lparr>Messages := Messages example_params @
         AssistantMessage (msg_Content (Message example_choice_two_calls))
           (ToolCalls (Message example_choice_two_calls)) #
         toolMessages results (ToolCalls (Message example_choice_two_calls))\<rparr> \<and>
     map toolResultID (toolMessages results (ToolCalls (Message example_choice_two_calls))) =
       map (Some \<circ> ID) (ToolCalls (Message example_choice_two_calls)) \<and>
     (\<exists>evs. trace (run_world (main_loop example_env
          (Inr example_turn_two_calls # [Inr (example_completion ''42'' [])])
          0 example_params example_world)) =
        trace example_world_two_calls @ CompletionsNew example_params_two_calls # evs))"
proof -
  have choice: "Choices example_turn_two_calls = example_choice_two_calls # []"
    by (simp add: example_turn_two_calls_def)
  have calls: "ToolCalls (Message example_choice_two_calls) \<noteq> []"
    by (simp add: example_choice_two_calls_def example_two_calls_def)
  have continue:
    "main_iteration example_env (Inr example_turn_two_calls) example_params
       (callCompletionsNew example_params example_world) =
     Continue example_params_two_calls example_world_two_calls"
    by (simp add: example_turn_two_calls_def example_choice_two_calls_def example_two_calls_def
        example_params_two_calls_def example_world_two_calls_def example_request_def eval_defs)
  from main_iteration_tool_results [OF choice calls continue,
      of "[Inr (example_completion ''42'' [])]" 0] choice calls continue
  show ?thesis by blast
qed




end
